theory Spec2Isabelle
  imports Main
begin

section \<open>The App component of src/App.js\<close>

text \<open>
  The component keeps five pieces of React state and a set of asynchronous event
  handlers. Every handler checks one handle, calls into the wallet SDK or the chain
  client, and stores the answer. The handles are opaque objects; the model keeps of
  them what tells two of them apart. A contract object is the address of its contract
  together with its deployment transaction, of which the model keeps the constructor
  argument.
\<close>

datatype session = Web3AuthNoModal

datatype browser_provider = BrowserProvider nat

datatype contract_ref = Contract nat string

text \<open>
  The five \<open>useState\<close> cells, all of them \<open>null\<close> or empty at the first render.
  A \<open>null\<close> handle is \<open>None\<close>; the guards \<open>if (!web3auth)\<close>, \<open>if (!provider)\<close>
  and \<open>if (!contract)\<close> test exactly that, since an object is never falsy.
\<close>

record component =
  web3auth :: "session option"
  provider :: "browser_provider option"
  contract :: "contract_ref option"
  message :: string
  newMessage :: string

subsection \<open>What a handler does to the outside\<close>

text \<open>
  A handler writes to the console and calls the libraries. Both are recorded, in
  order, in a trace. An argument of \<open>console.log\<close> is a string literal, an error
  object, a contract address, a number, a balance handed to \<open>formatEther\<close>, or an
  object printed as it is.
\<close>

datatype logarg = Str string | Err string | Addr nat | Num nat | Ether nat | Obj string

datatype sdk_call =
    Construct
  | Web3authInit
  | ConnectTo
  | Web3authGetUserInfo
  | Web3authLogout
  | GetSigner
  | FactoryDeploy string
  | WaitForDeployment nat
  | ContractGetAddress nat
  | ContractMessage nat
  | ContractUpdate nat string
  | TxWait nat
  | SignerGetAddress
  | GetNetwork
  | GetBalance string

datatype effect = ConsoleLog "logarg list" | ConsoleError "logarg list" | Sdk sdk_call

text \<open>
  The chain holds the stored string of every deployed contract, in the order of
  deployment; the address of a contract is its position.
\<close>

record world =
  ui :: component
  chain :: "string list"
  trace :: "effect list"

text \<open>
  A library call either resolves with a value or rejects with an error, of which the
  model keeps the message. Which of the two happens is decided outside the component,
  so every handler takes the outcome of each of its calls as an argument.
\<close>

datatype 'a outcome = Resolved 'a | Rejected string

text \<open>
  An asynchronous function runs on the world and either returns (\<open>Inr\<close>) or throws
  (\<open>Inl\<close>, the promise rejects); what it did before throwing stays done.
\<close>

type_synonym 'a prog = "world \<Rightarrow> (string + 'a) \<times> world"

definition ret :: "'a \<Rightarrow> 'a prog" where
  "ret a = (\<lambda>w. (Inr a, w))"

definition bnd :: "'a prog \<Rightarrow> ('a \<Rightarrow> 'b prog) \<Rightarrow> 'b prog" where
  "bnd m f = (\<lambda>w. case m w of (Inl e, w') \<Rightarrow> (Inl e, w') | (Inr a, w') \<Rightarrow> f a w')"

definition try_catch :: "'a prog \<Rightarrow> (string \<Rightarrow> 'a prog) \<Rightarrow> 'a prog" where
  "try_catch m h = (\<lambda>w. case m w of (Inl e, w') \<Rightarrow> h e w' | (Inr a, w') \<Rightarrow> (Inr a, w'))"

definition emit :: "effect \<Rightarrow> world \<Rightarrow> world" where
  "emit ev w = w\<lparr>trace := trace w @ [ev]\<rparr>"

definition console_log :: "logarg list \<Rightarrow> unit prog" where
  "console_log args = (\<lambda>w. (Inr (), emit (ConsoleLog args) w))"

definition console_error :: "logarg list \<Rightarrow> unit prog" where
  "console_error args = (\<lambda>w. (Inr (), emit (ConsoleError args) w))"

definition sdk :: "sdk_call \<Rightarrow> 'a outcome \<Rightarrow> 'a prog" where
  "sdk c r = (\<lambda>w. (case r of Resolved a \<Rightarrow> Inr a | Rejected e \<Rightarrow> Inl e, emit (Sdk c) w))"

definition setWeb3auth :: "session option \<Rightarrow> unit prog" where
  "setWeb3auth v = (\<lambda>w. (Inr (), w\<lparr>ui := (ui w)\<lparr>web3auth := v\<rparr>\<rparr>))"

definition setProvider :: "browser_provider option \<Rightarrow> unit prog" where
  "setProvider v = (\<lambda>w. (Inr (), w\<lparr>ui := (ui w)\<lparr>provider := v\<rparr>\<rparr>))"

definition setContract :: "contract_ref option \<Rightarrow> unit prog" where
  "setContract v = (\<lambda>w. (Inr (), w\<lparr>ui := (ui w)\<lparr>contract := v\<rparr>\<rparr>))"

definition setMessage :: "string \<Rightarrow> unit prog" where
  "setMessage v = (\<lambda>w. (Inr (), w\<lparr>ui := (ui w)\<lparr>message := v\<rparr>\<rparr>))"

definition setNewMessage :: "string \<Rightarrow> unit prog" where
  "setNewMessage v = (\<lambda>w. (Inr (), w\<lparr>ui := (ui w)\<lparr>newMessage := v\<rparr>\<rparr>))"

subsection \<open>The contract behind the ABI\<close>

text \<open>
  src/App.js holds the contract as an ABI of three entries and a string of compiled
  bytecode; what the contract does is not written there. The spec gives it a "fixed
  three-entry interface (constructor taking one string, a no-argument string getter, a
  one-string-argument setter)", has \<open>readContract\<close> fetch "the current stored string"
  and \<open>writeContract\<close> submit "an update transaction". So on the chain a contract is
  one stored string.
\<close>

text \<open>
  Modelled from the spec: \<open>factory.deploy\<close>, which "submits a fixed constructor
  argument". Once the call resolves the deployment transaction is submitted, and the
  contract object exists: it has the address its contract is going to have, the next
  free one, and carries the constructor argument the factory was given.
\<close>

definition factory_deploy :: "string \<Rightarrow> unit outcome \<Rightarrow> contract_ref prog" where
  "factory_deploy initMessage r =
     bnd (sdk (FactoryDeploy initMessage) r)
       (\<lambda>_ w. (Inr (Contract (length (chain w)) initMessage), w))"

text \<open>
  Modelled from the spec: \<open>contract.waitForDeployment()\<close>, which "awaits on-chain
  confirmation", and the constructor of the contract, "taking one string". The call
  takes no argument. Once it resolves, the contract is on the chain and stores the
  string its deployment transaction carries, the one handed to \<open>factory.deploy\<close>.
\<close>

definition waitForDeployment :: "contract_ref \<Rightarrow> unit outcome \<Rightarrow> unit prog" where
  "waitForDeployment c r =
     (case c of Contract a initMessage \<Rightarrow>
        bnd (sdk (WaitForDeployment a) r) (\<lambda>_ w. (Inr (), w\<lparr>chain := chain w @ [initMessage]\<rparr>)))"

definition getAddress :: "contract_ref \<Rightarrow> unit outcome \<Rightarrow> nat prog" where
  "getAddress c r = (case c of Contract a i \<Rightarrow> bnd (sdk (ContractGetAddress a) r) (\<lambda>_. ret a))"

text \<open>
  Modelled from the spec: \<open>message()\<close>, the "no-argument string getter", which "fetches
  the current stored string" and is a "pure read, no side effect on-chain". A call
  to an address that holds no contract has nothing to decode and rejects.
\<close>

definition call_message :: "contract_ref \<Rightarrow> unit outcome \<Rightarrow> string prog" where
  "call_message c r =
     (case c of Contract a i \<Rightarrow>
        bnd (sdk (ContractMessage a) r)
          (\<lambda>_ w. if a < length (chain w) then (Inr (chain w ! a), w)
                 else (Inl ''could not decode result data'', w)))"

text \<open>
  \<open>contract.update(newMessage)\<close> submits the transaction and resolves with it; the
  model keeps of a transaction the address it goes to and the string it carries.
\<close>

definition call_update :: "contract_ref \<Rightarrow> string \<Rightarrow> unit outcome \<Rightarrow> (nat \<times> string) prog" where
  "call_update c s r =
     (case c of Contract a i \<Rightarrow> bnd (sdk (ContractUpdate a s) r) (\<lambda>_. ret (a, s)))"

text \<open>
  Modelled from the spec: \<open>tx.wait()\<close>, which "awaits confirmation", and \<open>update\<close>, the
  "one-string-argument setter". Once the call resolves the transaction is on the chain:
  the contract at its address stores the new string. A transaction to an address that
  holds no contract changes nothing.
\<close>

definition tx_wait :: "nat \<times> string \<Rightarrow> unit outcome \<Rightarrow> unit prog" where
  "tx_wait tx r =
     (case tx of (a, s) \<Rightarrow>
        bnd (sdk (TxWait a) r) (\<lambda>_ w. (Inr (), w\<lparr>chain := (chain w)[a := s]\<rparr>)))"

subsection \<open>String.prototype.includes\<close>

fun startsWith :: "string \<Rightarrow> string \<Rightarrow> bool" where
  "startsWith s [] = True"
| "startsWith [] (c # cs) = False"
| "startsWith (x # xs) (c # cs) = (x = c \<and> startsWith xs cs)"

fun includes_str :: "string \<Rightarrow> string \<Rightarrow> bool" where
  "includes_str [] t = (t = [])"
| "includes_str (x # xs) t = (startsWith (x # xs) t \<or> includes_str xs t)"

subsection \<open>The handlers\<close>

text \<open>
  The effect run once at mount. Building the client, the key provider and the adapter
  and registering the adapter is one synchronous stretch that may throw; the session
  is stored before \<open>web3auth.init()\<close> is awaited.
\<close>

definition init :: "unit outcome \<Rightarrow> unit outcome \<Rightarrow> unit prog" where
  "init construct_r init_r =
     try_catch
       (bnd (sdk Construct construct_r) (\<lambda>_.
        bnd (setWeb3auth (Some Web3AuthNoModal)) (\<lambda>_.
        sdk Web3authInit init_r)))
       (\<lambda>error. console_error [Err error])"

definition login :: "nat outcome \<Rightarrow> unit prog" where
  "login connectTo_r = (\<lambda>w.
     case web3auth (ui w) of
       None \<Rightarrow> console_log [Str ''web3auth not initialized yet''] w
     | Some _ \<Rightarrow>
         bnd (sdk ConnectTo connectTo_r) (\<lambda>web3authProvider.
         setProvider (Some (BrowserProvider web3authProvider))) w)"

definition getUserInfo :: "string outcome \<Rightarrow> unit prog" where
  "getUserInfo getUserInfo_r = (\<lambda>w.
     case web3auth (ui w) of
       None \<Rightarrow> console_log [Str ''web3auth not initialized yet''] w
     | Some _ \<Rightarrow>
         bnd (sdk Web3authGetUserInfo getUserInfo_r) (\<lambda>user.
         console_log [Obj user]) w)"

definition logout :: "unit outcome \<Rightarrow> unit prog" where
  "logout logout_r = (\<lambda>w.
     case web3auth (ui w) of
       None \<Rightarrow> console_log [Str ''web3auth not initialized yet''] w
     | Some _ \<Rightarrow>
         bnd (sdk Web3authLogout logout_r) (\<lambda>_.
         setProvider None) w)"

definition deployContract ::
  "unit outcome \<Rightarrow> unit outcome \<Rightarrow> unit outcome \<Rightarrow> unit outcome \<Rightarrow> unit prog" where
  "deployContract getSigner_r deploy_r wait_r getAddress_r = (\<lambda>w.
     case provider (ui w) of
       None \<Rightarrow> console_log [Str ''provider not initialized yet''] w
     | Some _ \<Rightarrow>
         try_catch
           (bnd (sdk GetSigner getSigner_r) (\<lambda>signer.
            bnd (factory_deploy ''Hello World!'' deploy_r) (\<lambda>c.
            bnd (waitForDeployment c wait_r) (\<lambda>_.
            bnd (setContract (Some c)) (\<lambda>_.
            bnd (getAddress c getAddress_r) (\<lambda>a.
            console_log [Str ''Contract deployed to:'', Addr a]))))))
           (\<lambda>error_message.
            bnd (console_error [Str ''Error deploying contract:'', Str error_message]) (\<lambda>_.
            if includes_str error_message ''insufficient funds''
            then console_log [Str ''Please make sure you have enough test ETH in your wallet.'']
            else ret ())) w)"

definition readContract :: "unit outcome \<Rightarrow> unit prog" where
  "readContract message_r = (\<lambda>w.
     case contract (ui w) of
       None \<Rightarrow> console_log [Str ''Contract not deployed yet''] w
     | Some c \<Rightarrow>
         bnd (call_message c message_r) (\<lambda>message.
         setMessage message) w)"

definition writeContract :: "unit outcome \<Rightarrow> unit outcome \<Rightarrow> unit prog" where
  "writeContract update_r wait_r = (\<lambda>w.
     case contract (ui w) of
       None \<Rightarrow> console_log [Str ''Contract not deployed yet''] w
     | Some c \<Rightarrow>
         bnd (call_update c (newMessage (ui w)) update_r) (\<lambda>tx.
         bnd (tx_wait tx wait_r) (\<lambda>_.
         bnd (console_log [Str ''Message updated'']) (\<lambda>_.
         setNewMessage ''''))) w)"

definition checkBalance ::
  "unit outcome \<Rightarrow> string outcome \<Rightarrow> (string \<times> nat) outcome \<Rightarrow> nat outcome \<Rightarrow> unit prog" where
  "checkBalance getSigner_r getAddress_r getNetwork_r getBalance_r = (\<lambda>w.
     case provider (ui w) of
       None \<Rightarrow> console_log [Str ''Provider not initialized yet''] w
     | Some _ \<Rightarrow>
         try_catch
           (bnd (sdk GetSigner getSigner_r) (\<lambda>signer.
            bnd (sdk SignerGetAddress getAddress_r) (\<lambda>address.
            bnd (console_log [Str ''Wallet address:'', Str address]) (\<lambda>_.
            bnd (sdk GetNetwork getNetwork_r) (\<lambda>network.
            bnd (console_log [Str ''Connected to network:'', Str (fst network),
                              Str ''Chain ID:'', Num (snd network)]) (\<lambda>_.
            bnd (sdk (GetBalance address) getBalance_r) (\<lambda>balance.
            console_log [Str ''Balance:'', Ether balance, Str ''ETH''])))))))
           (\<lambda>error. console_error [Str ''Error checking balance:'', Err error]) w)"

subsection \<open>Runs of the component\<close>

text \<open>
  What can happen to a mounted component: the mount effect, a click on one of the
  buttons together with the outcomes of the calls it makes, or an edit of the input
  field (its \<open>onChange\<close> stores the typed text). One handler runs at a time.
\<close>

datatype action =
    Init "unit outcome" "unit outcome"
  | Login "nat outcome"
  | GetUserInfo "string outcome"
  | Logout "unit outcome"
  | DeployContract "unit outcome" "unit outcome" "unit outcome" "unit outcome"
  | ReadContract "unit outcome"
  | WriteContract "unit outcome" "unit outcome"
  | CheckBalance "unit outcome" "string outcome" "(string \<times> nat) outcome" "nat outcome"
  | Edit string

fun step :: "action \<Rightarrow> world \<Rightarrow> world" where
  "step (Init c i) w = snd (init c i w)"
| "step (Login r) w = snd (login r w)"
| "step (GetUserInfo r) w = snd (getUserInfo r w)"
| "step (Logout r) w = snd (logout r w)"
| "step (DeployContract s d wt g) w = snd (deployContract s d wt g w)"
| "step (ReadContract r) w = snd (readContract r w)"
| "step (WriteContract u wt) w = snd (writeContract u wt w)"
| "step (CheckBalance s a n b) w = snd (checkBalance s a n b w)"
| "step (Edit v) w = snd (setNewMessage v w)"

fun run :: "action list \<Rightarrow> world \<Rightarrow> world" where
  "run [] w = w"
| "run (a # as) w = run as (step a w)"

text \<open>The component at its first render, on a chain that may hold contracts already.\<close>

definition initial :: "string list \<Rightarrow> world" where
  "initial ch =
     \<lparr>ui = \<lparr>web3auth = None, provider = None, contract = None, message = '''', newMessage = ''''\<rparr>,
      chain = ch, trace = []\<rparr>"

subsection \<open>Vocabulary of the properties\<close>

text \<open>What one call of a handler added to the trace.\<close>

definition emitted :: "world \<Rightarrow> world \<Rightarrow> effect list" where
  "emitted w w' = drop (length (trace w)) (trace w')"

text \<open>
  The invariant in the words of the spec: a connected provider only with a session, a
  deployed contract only with a connected provider.
\<close>

definition spec_invariant :: "world \<Rightarrow> bool" where
  "spec_invariant w =
     ((provider (ui w) \<noteq> None \<longrightarrow> web3auth (ui w) \<noteq> None)
      \<and> (contract (ui w) \<noteq> None \<longrightarrow> provider (ui w) \<noteq> None))"

text \<open>The weaker one: both handles only with a session.\<close>

definition session_invariant :: "world \<Rightarrow> bool" where
  "session_invariant w =
     ((provider (ui w) \<noteq> None \<longrightarrow> web3auth (ui w) \<noteq> None)
      \<and> (contract (ui w) \<noteq> None \<longrightarrow> web3auth (ui w) \<noteq> None))"

text \<open>
  The state before login: the session is there, no provider is connected, and no
  contract is deployed.
\<close>

definition pre_login :: "world \<Rightarrow> bool" where
  "pre_login w =
     (web3auth (ui w) \<noteq> None \<and> provider (ui w) = None \<and> contract (ui w) = None)"

fun is_logout :: "action \<Rightarrow> bool" where
  "is_logout (Logout r) = True"
| "is_logout a = False"

fun is_write :: "action \<Rightarrow> bool" where
  "is_write (WriteContract u wt) = True"
| "is_write a = False"

fun is_deploy :: "action \<Rightarrow> bool" where
  "is_deploy (DeployContract s d wt g) = True"
| "is_deploy a = False"

text \<open>The stored reference points at a contract on the chain whose string is \<open>s\<close>.\<close>

definition reads_as :: "world \<Rightarrow> string \<Rightarrow> bool" where
  "reads_as w s =
     (case contract (ui w) of
        None \<Rightarrow> False
      | Some (Contract a i) \<Rightarrow> a < length (chain w) \<and> chain w ! a = s)"

text \<open>The stored reference, if there is one, points at a contract on the chain.\<close>

definition points_at_code :: "world \<Rightarrow> bool" where
  "points_at_code w =
     (case contract (ui w) of None \<Rightarrow> True | Some (Contract a i) \<Rightarrow> a < length (chain w))"

text \<open>Two states of a session in progress, used to try the theorems on.\<close>

definition logged_in :: world where
  "logged_in =
     run [Init (Resolved ()) (Resolved ()), Login (Resolved 0), Edit ''gm''] (initial [])"

definition deployed_and_typed :: world where
  "deployed_and_typed =
     run [Init (Resolved ()) (Resolved ()), Login (Resolved 0),
          DeployContract (Resolved ()) (Resolved ()) (Resolved ()) (Resolved ()),
          Edit ''gm''] (initial [])"

section \<open>Properties\<close>

lemmas prog_defs = ret_def bnd_def try_catch_def emit_def console_log_def console_error_def
  sdk_def setWeb3auth_def setProvider_def setContract_def setMessage_def setNewMessage_def
  factory_deploy_def waitForDeployment_def getAddress_def call_message_def
  call_update_def tx_wait_def

lemmas handler_defs = init_def login_def getUserInfo_def logout_def deployContract_def
  readContract_def writeContract_def checkBalance_def

lemma emit_fields [simp]:
  "ui (emit ev w) = ui w" "chain (emit ev w) = chain w" "trace (emit ev w) = trace w @ [ev]"
  by (simp_all add: emit_def)

lemma emitted_emit [simp]: "emitted w (emit ev w) = [ev]"
  by (simp add: emitted_def)

lemma logged_in_eval:
  "logged_in =
     \<lparr>ui = \<lparr>web3auth = Some Web3AuthNoModal, provider = Some (BrowserProvider 0),
            contract = None, message = '''', newMessage = ''gm''\<rparr>,
      chain = [],
      trace = [Sdk Construct, Sdk Web3authInit, Sdk ConnectTo]\<rparr>"
  by (simp add: logged_in_def initial_def handler_defs prog_defs)

lemma deployed_and_typed_eval:
  "deployed_and_typed =
     \<lparr>ui = \<lparr>web3auth = Some Web3AuthNoModal, provider = Some (BrowserProvider 0),
            contract = Some (Contract 0 ''Hello World!''), message = '''', newMessage = ''gm''\<rparr>,
      chain = [''Hello World!''],
      trace = [Sdk Construct, Sdk Web3authInit, Sdk ConnectTo, Sdk GetSigner,
               Sdk (FactoryDeploy ''Hello World!''), Sdk (WaitForDeployment 0),
               Sdk (ContractGetAddress 0), ConsoleLog [Str ''Contract deployed to:'', Addr 0]]\<rparr>"
  by (simp add: deployed_and_typed_def initial_def handler_defs prog_defs)

subsection \<open>The guards\<close>

lemma login_no_session:
  "web3auth (ui w) = None \<Longrightarrow>
   login r w = (Inr (), emit (ConsoleLog [Str ''web3auth not initialized yet'']) w)"
  by (simp add: login_def prog_defs)

lemma deployContract_no_provider:
  "provider (ui w) = None \<Longrightarrow>
   deployContract s d wt g w = (Inr (), emit (ConsoleLog [Str ''provider not initialized yet'']) w)"
  by (simp add: deployContract_def prog_defs)

lemma readContract_no_contract:
  "contract (ui w) = None \<Longrightarrow>
   readContract r w = (Inr (), emit (ConsoleLog [Str ''Contract not deployed yet'']) w)"
  by (simp add: readContract_def prog_defs)

lemma writeContract_no_contract:
  "contract (ui w) = None \<Longrightarrow>
   writeContract u wt w = (Inr (), emit (ConsoleLog [Str ''Contract not deployed yet'']) w)"
  by (simp add: writeContract_def prog_defs)

subsection \<open>Past the guards\<close>

lemma logout_resolved:
  "web3auth (ui w) = Some s \<Longrightarrow>
   logout (Resolved ()) w =
     (Inr (), w\<lparr>ui := (ui w)\<lparr>provider := None\<rparr>, trace := trace w @ [Sdk Web3authLogout]\<rparr>)"
  by (simp add: logout_def prog_defs)

text \<open>
  \<open>logout\<close> has no \<open>catch\<close>: when \<open>web3auth.logout()\<close> rejects, the handler rejects
  with the same error before it reaches \<open>setProvider(null)\<close>.
\<close>

lemma logout_rejected:
  "web3auth (ui w) = Some s \<Longrightarrow>
   logout (Rejected e) w = (Inl e, w\<lparr>trace := trace w @ [Sdk Web3authLogout]\<rparr>)"
  by (simp add: logout_def prog_defs)

lemma logout_frame:
  "web3auth (ui (snd (logout r w))) = web3auth (ui w)"
  "contract (ui (snd (logout r w))) = contract (ui w)"
  "message (ui (snd (logout r w))) = message (ui w)"
  "newMessage (ui (snd (logout r w))) = newMessage (ui w)"
  "chain (snd (logout r w)) = chain w"
  by (simp_all add: logout_def prog_defs split: option.splits outcome.splits)

lemma logout_without_contract:
  "spec_invariant w \<Longrightarrow> contract (ui w) = None \<Longrightarrow> spec_invariant (snd (logout r w))"
  by (auto simp add: spec_invariant_def logout_def prog_defs split: option.splits outcome.splits)

text \<open>
  What is handed to \<open>factory.deploy\<close> is what the contract stores once it is on the
  chain, at the address the contract object has.
\<close>

lemma deployment_stores_constructor_argument:
  "bnd (factory_deploy initMessage (Resolved ()))
     (\<lambda>c. bnd (waitForDeployment c (Resolved ())) (\<lambda>_. ret c)) w =
   (Inr (Contract (length (chain w)) initMessage),
    w\<lparr>chain := chain w @ [initMessage],
      trace := trace w @ [Sdk (FactoryDeploy initMessage),
                          Sdk (WaitForDeployment (length (chain w)))]\<rparr>)"
  by (simp add: prog_defs)

lemma deployContract_deployed:
  "provider (ui w) = Some p \<Longrightarrow>
   snd (deployContract (Resolved ()) (Resolved ()) (Resolved ()) g w) =
     w\<lparr>ui := (ui w)\<lparr>contract := Some (Contract (length (chain w)) ''Hello World!'')\<rparr>,
       chain := chain w @ [''Hello World!''],
       trace := trace (snd (deployContract (Resolved ()) (Resolved ()) (Resolved ()) g w))\<rparr>"
  by (cases g) (simp_all add: deployContract_def prog_defs)

lemma deployContract_getSigner_rejected:
  "provider (ui w) = Some p \<Longrightarrow>
   deployContract (Rejected e) d wt g w =
     (Inr (), w\<lparr>trace := trace w @
        ([Sdk GetSigner, ConsoleError [Str ''Error deploying contract:'', Str e]]
         @ (if includes_str e ''insufficient funds''
            then [ConsoleLog [Str ''Please make sure you have enough test ETH in your wallet.'']]
            else []))\<rparr>)"
  by (simp add: deployContract_def prog_defs)

lemma deployContract_deploy_rejected:
  "provider (ui w) = Some p \<Longrightarrow>
   deployContract (Resolved ()) (Rejected e) wt g w =
     (Inr (), w\<lparr>trace := trace w @
        ([Sdk GetSigner, Sdk (FactoryDeploy ''Hello World!''),
          ConsoleError [Str ''Error deploying contract:'', Str e]]
         @ (if includes_str e ''insufficient funds''
            then [ConsoleLog [Str ''Please make sure you have enough test ETH in your wallet.'']]
            else []))\<rparr>)"
  by (simp add: deployContract_def prog_defs)

lemma deployContract_wait_rejected:
  "provider (ui w) = Some p \<Longrightarrow>
   deployContract (Resolved ()) (Resolved ()) (Rejected e) g w =
     (Inr (), w\<lparr>trace := trace w @
        ([Sdk GetSigner, Sdk (FactoryDeploy ''Hello World!''),
          Sdk (WaitForDeployment (length (chain w))),
          ConsoleError [Str ''Error deploying contract:'', Str e]]
         @ (if includes_str e ''insufficient funds''
            then [ConsoleLog [Str ''Please make sure you have enough test ETH in your wallet.'']]
            else []))\<rparr>)"
  by (simp add: deployContract_def prog_defs)

lemma readContract_reads:
  "reads_as w s \<Longrightarrow>
   readContract (Resolved ()) w =
     (Inr (), w\<lparr>ui := (ui w)\<lparr>message := s\<rparr>,
                trace := trace w @
                  [Sdk (ContractMessage (case the (contract (ui w)) of Contract a i \<Rightarrow> a))]\<rparr>)"
  by (auto simp add: reads_as_def readContract_def prog_defs
           split: option.splits contract_ref.splits)

lemma writeContract_fulfilled:
  "contract (ui w) = Some (Contract a i) \<Longrightarrow> fst (writeContract u wt w) = Inr () \<Longrightarrow>
   snd (writeContract u wt w) =
     w\<lparr>ui := (ui w)\<lparr>newMessage := ''''\<rparr>,
       chain := (chain w)[a := newMessage (ui w)],
       trace := trace w @ [Sdk (ContractUpdate a (newMessage (ui w))), Sdk (TxWait a),
                           ConsoleLog [Str ''Message updated'']]\<rparr>"
  by (cases u; cases wt) (simp_all add: writeContract_def prog_defs)

subsection \<open>One step, then a run\<close>

lemma step_session_invariant: "session_invariant w \<Longrightarrow> session_invariant (step a w)"
  by (cases a)
     (auto simp add: session_invariant_def handler_defs prog_defs
           split: option.splits outcome.splits sum.splits contract_ref.splits)

lemma step_spec_invariant: "spec_invariant w \<Longrightarrow> \<not> is_logout a \<Longrightarrow> spec_invariant (step a w)"
  by (cases a)
     (auto simp add: spec_invariant_def handler_defs prog_defs
           split: option.splits outcome.splits sum.splits contract_ref.splits)

lemma step_reads_as:
  "reads_as w s \<Longrightarrow> \<not> is_write a \<Longrightarrow> \<not> is_deploy a \<Longrightarrow> reads_as (step a w) s"
  by (cases a)
     (auto simp add: reads_as_def handler_defs prog_defs
           split: option.splits outcome.splits sum.splits contract_ref.splits)

lemma step_reads_as_initial:
  "reads_as w ''Hello World!'' \<Longrightarrow> \<not> is_write a \<Longrightarrow> reads_as (step a w) ''Hello World!''"
  by (cases a)
     (auto simp add: reads_as_def handler_defs prog_defs nth_append
           split: option.splits outcome.splits sum.splits contract_ref.splits)

lemma step_points_at_code: "points_at_code w \<Longrightarrow> points_at_code (step a w)"
  by (cases a)
     (auto simp add: points_at_code_def handler_defs prog_defs
           split: option.splits outcome.splits sum.splits contract_ref.splits)

lemma run_session_invariant: "session_invariant w \<Longrightarrow> session_invariant (run acts w)"
  by (induction acts arbitrary: w) (simp_all add: step_session_invariant)

lemma run_spec_invariant:
  "spec_invariant w \<Longrightarrow> \<forall>a\<in>set acts. \<not> is_logout a \<Longrightarrow> spec_invariant (run acts w)"
  by (induction acts arbitrary: w) (simp_all add: step_spec_invariant)

lemma run_reads_as:
  "reads_as w s \<Longrightarrow> \<forall>a\<in>set acts. \<not> is_write a \<and> \<not> is_deploy a \<Longrightarrow> reads_as (run acts w) s"
  by (induction acts arbitrary: w) (simp_all add: step_reads_as)

lemma run_reads_as_initial:
  "reads_as w ''Hello World!'' \<Longrightarrow> \<forall>a\<in>set acts. \<not> is_write a \<Longrightarrow>
   reads_as (run acts w) ''Hello World!''"
  by (induction acts arbitrary: w) (simp_all add: step_reads_as_initial)

lemma run_points_at_code: "points_at_code w \<Longrightarrow> points_at_code (run acts w)"
  by (induction acts arbitrary: w) (simp_all add: step_points_at_code)

lemma initial_invariants:
  "session_invariant (initial ch)" "spec_invariant (initial ch)" "points_at_code (initial ch)"
  by (simp_all add: session_invariant_def spec_invariant_def points_at_code_def initial_def)

text \<open>
  Whatever the component has done since its first render, a stored contract reference
  points at a contract that is on the chain.
\<close>

lemma reachable_points_at_code: "points_at_code (run acts (initial ch))"
  by (simp add: run_points_at_code initial_invariants)

section \<open>The handle invariant\<close>

text \<open>
  C1, as the code has it. In every state the component can reach, the provider handle
  is non-null only if the session handle is non-null, and the contract handle is
  non-null only if the session handle is non-null; every step (the mount effect, each
  of the seven handlers with whatever its calls answer, an edit of the input) keeps
  this. "A contract only with a provider" is kept by every step that is not a
  \<open>logout\<close>, and by a \<open>logout\<close> when no contract is stored; it holds in every state
  reached without a \<open>logout\<close>.
\<close>

theorem handles_need_session:
  "session_invariant (run acts (initial ch))
   \<and> (session_invariant w \<longrightarrow> session_invariant (step a w))
   \<and> (spec_invariant w \<and> \<not> is_logout a \<longrightarrow> spec_invariant (step a w))
   \<and> (spec_invariant w \<and> contract (ui w) = None \<longrightarrow> spec_invariant (step (Logout r) w))
   \<and> ((\<forall>b\<in>set acts. \<not> is_logout b) \<longrightarrow> spec_invariant (run acts (initial ch)))"
  by (simp add: run_session_invariant run_spec_invariant initial_invariants
        step_session_invariant step_spec_invariant logout_without_contract)

theorem handles_need_session_witness:
  "session_invariant (initial [''x''])
   \<and> session_invariant (step (Init (Resolved ()) (Rejected ''offline'')) (initial [''x'']))
   \<and> spec_invariant (initial [''x''])
   \<and> \<not> is_logout (Init (Resolved ()) (Rejected ''offline''))
   \<and> spec_invariant (step (Init (Resolved ()) (Rejected ''offline'')) (initial [''x'']))
   \<and> contract (ui (initial [''x''])) = None
   \<and> spec_invariant (step (Logout (Resolved ())) (initial [''x'']))
   \<and> \<not> is_logout (Init (Resolved ()) (Resolved ()))
   \<and> \<not> is_logout (Login (Resolved 0))
   \<and> \<not> is_logout (DeployContract (Resolved ()) (Resolved ()) (Resolved ()) (Resolved ()))
   \<and> spec_invariant
       (run [Init (Resolved ()) (Resolved ()), Login (Resolved 0),
             DeployContract (Resolved ()) (Resolved ()) (Resolved ()) (Resolved ())] (initial [''x'']))
   \<and> contract (ui
       (run [Init (Resolved ()) (Resolved ()), Login (Resolved 0),
             DeployContract (Resolved ()) (Resolved ()) (Resolved ()) (Resolved ())] (initial [''x''])))
       = Some (Contract 1 ''Hello World!'')"
  using handles_need_session
    [of "[Init (Resolved ()) (Resolved ()), Login (Resolved 0),
          DeployContract (Resolved ()) (Resolved ()) (Resolved ()) (Resolved ())]"
        "[''x'']" "initial [''x'']" "Init (Resolved ()) (Rejected ''offline'')" "Resolved ()"]
  by (simp add: initial_def session_invariant_def spec_invariant_def handler_defs prog_defs)

text \<open>
  The invariant of the spec holds after init, login and a deployment, and a \<open>logout\<close>
  whose SDK call resolves breaks it: the provider is cleared, the contract stays.
\<close>

theorem logout_breaks_contract_needs_provider:
  "spec_invariant
     (run [Init (Resolved ()) (Resolved ()), Login (Resolved 0),
           DeployContract (Resolved ()) (Resolved ()) (Resolved ()) (Resolved ())] (initial []))
   \<and> \<not> spec_invariant
     (snd (logout (Resolved ())
        (run [Init (Resolved ()) (Resolved ()), Login (Resolved 0),
              DeployContract (Resolved ()) (Resolved ()) (Resolved ()) (Resolved ())] (initial []))))"
  by (simp add: spec_invariant_def initial_def handler_defs prog_defs)

section \<open>Reading what was written\<close>

text \<open>
  C2, as the code has it. For every string \<open>X\<close>, when \<open>writeContract\<close> is called
  while the pending input is \<open>X\<close> and the stored reference points at a deployed
  contract, and the write completes, then every later \<open>readContract\<close> whose call
  resolves, with no \<open>deployContract\<close> and no further \<open>writeContract\<close> in between,
  returns normally and sets the displayed message to \<open>X\<close>: the stored string of the
  contract written to is the last written value. Any other steps of the component may
  lie in between; the chain is changed by this component only.
\<close>

theorem write_then_read:
  assumes "contract (ui w) = Some (Contract a i)" and "a < length (chain w)"
    and "newMessage (ui w) = X"
    and "fst (writeContract u wt w) = Inr ()"
    and "\<forall>act\<in>set acts. \<not> is_write act \<and> \<not> is_deploy act"
  shows "fst (readContract (Resolved ()) (run acts (snd (writeContract u wt w)))) = Inr ()
       \<and> message (ui (snd (readContract (Resolved ()) (run acts (snd (writeContract u wt w)))))) = X"
proof -
  let ?w1 = "snd (writeContract u wt w)"
  have "reads_as ?w1 X"
    using assms(1-3) by (simp add: writeContract_fulfilled [OF assms(1) assms(4)] reads_as_def)
  then have "reads_as (run acts ?w1) X"
    using assms(5) by (rule run_reads_as)
  then show ?thesis
    by (simp add: readContract_reads)
qed

theorem write_then_read_witness:
  "contract (ui deployed_and_typed) = Some (Contract 0 ''Hello World!'')
   \<and> 0 < length (chain deployed_and_typed)
   \<and> newMessage (ui deployed_and_typed) = ''gm''
   \<and> fst (writeContract (Resolved ()) (Resolved ()) deployed_and_typed) = Inr ()
   \<and> \<not> is_write (Logout (Resolved ())) \<and> \<not> is_deploy (Logout (Resolved ()))
   \<and> \<not> is_write (Edit ''next'') \<and> \<not> is_deploy (Edit ''next'')
   \<and> \<not> is_write (ReadContract (Rejected ''timeout''))
   \<and> \<not> is_deploy (ReadContract (Rejected ''timeout''))
   \<and> message (ui (snd (readContract (Resolved ())
        (run [Logout (Resolved ()), Edit ''next'', ReadContract (Rejected ''timeout'')]
           (snd (writeContract (Resolved ()) (Resolved ()) deployed_and_typed)))))) = ''gm''"
  using write_then_read [of deployed_and_typed 0 "''Hello World!''" "''gm''" "Resolved ()" "Resolved ()"
      "[Logout (Resolved ()), Edit ''next'', ReadContract (Rejected ''timeout'')]"]
  by (simp add: deployed_and_typed_eval writeContract_def prog_defs)

text \<open>
  A deployment between the write and the read: \<open>setContract\<close> replaces the stored
  reference by the new contract, and the read shows the string of that one, not the
  string written.
\<close>

theorem deploy_between_write_and_read:
  "contract (ui deployed_and_typed) = Some (Contract 0 ''Hello World!'')
   \<and> 0 < length (chain deployed_and_typed)
   \<and> newMessage (ui deployed_and_typed) = ''gm''
   \<and> fst (writeContract (Resolved ()) (Resolved ()) deployed_and_typed) = Inr ()
   \<and> chain (snd (writeContract (Resolved ()) (Resolved ()) deployed_and_typed)) = [''gm'']
   \<and> fst (readContract (Resolved ())
        (run [DeployContract (Resolved ()) (Resolved ()) (Resolved ()) (Resolved ())]
           (snd (writeContract (Resolved ()) (Resolved ()) deployed_and_typed)))) = Inr ()
   \<and> message (ui (snd (readContract (Resolved ())
        (run [DeployContract (Resolved ()) (Resolved ()) (Resolved ()) (Resolved ())]
           (snd (writeContract (Resolved ()) (Resolved ()) deployed_and_typed))))))
       = ''Hello World!''
   \<and> message (ui (snd (readContract (Resolved ())
        (run [DeployContract (Resolved ()) (Resolved ()) (Resolved ()) (Resolved ())]
           (snd (writeContract (Resolved ()) (Resolved ()) deployed_and_typed))))))
       \<noteq> ''gm''"
  by (simp add: deployed_and_typed_eval handler_defs prog_defs)

text \<open>
  C3: after a \<open>deployContract\<close> that gets through (the provider is there and
  \<open>getSigner\<close>, \<open>factory.deploy\<close> and \<open>waitForDeployment\<close> resolve) and before any
  \<open>writeContract\<close>, a \<open>readContract\<close> whose call resolves returns normally and sets
  the displayed message to "Hello World!", the string \<open>deployContract\<close> hands to
  \<open>factory.deploy\<close> as the constructor argument. Any steps other than \<open>writeContract\<close>
  may lie in between, further deployments among them.
\<close>

theorem deploy_then_read:
  assumes "provider (ui w) = Some p" and "\<forall>act\<in>set acts. \<not> is_write act"
  shows "fst (readContract (Resolved ())
            (run acts (snd (deployContract (Resolved ()) (Resolved ()) (Resolved ()) g w)))) = Inr ()
       \<and> message (ui (snd (readContract (Resolved ())
            (run acts (snd (deployContract (Resolved ()) (Resolved ()) (Resolved ()) g w))))))
         = ''Hello World!''"
proof -
  let ?w1 = "snd (deployContract (Resolved ()) (Resolved ()) (Resolved ()) g w)"
  have "reads_as ?w1 ''Hello World!''"
    by (subst deployContract_deployed [OF assms(1)]) (simp add: reads_as_def)
  then have "reads_as (run acts ?w1) ''Hello World!''"
    using assms(2) by (rule run_reads_as_initial)
  then show ?thesis
    by (simp add: readContract_reads)
qed

theorem deploy_then_read_witness:
  "provider (ui logged_in) = Some (BrowserProvider 0)
   \<and> \<not> is_write (GetUserInfo (Resolved ''alice''))
   \<and> \<not> is_write (DeployContract (Resolved ()) (Rejected ''insufficient funds'')
                      (Resolved ()) (Resolved ()))
   \<and> message (ui (snd (readContract (Resolved ())
        (run [GetUserInfo (Resolved ''alice''),
              DeployContract (Resolved ()) (Rejected ''insufficient funds'')
                (Resolved ()) (Resolved ())]
           (snd (deployContract (Resolved ()) (Resolved ()) (Resolved ()) (Resolved ()) logged_in))))))
       = ''Hello World!''"
  using deploy_then_read [of logged_in "BrowserProvider 0"
      "[GetUserInfo (Resolved ''alice''),
        DeployContract (Resolved ()) (Rejected ''insufficient funds'') (Resolved ()) (Resolved ())]"
      "Resolved ()"]
  by (simp add: logged_in_eval)

section \<open>Logout\<close>

text \<open>
  C4, as the code has it. \<open>logout\<close>, called with an initialized session and with
  \<open>web3auth.logout()\<close> resolving, returns normally, clears the provider and keeps the
  session and every other cell, the contract reference among them. A
  \<open>deployContract\<close> after it is a no-op again, whatever its calls would have
  answered: it logs "provider not initialized yet" and changes nothing else, which is
  what it does in every state before login. The component is back in the state before
  login when no contract was stored. When \<open>web3auth.logout()\<close> rejects, the handler
  rejects with the same error and no cell changes, so the provider stays.
\<close>

theorem logout_clears_provider_only:
  assumes "web3auth (ui w) = Some s"
  shows "fst (logout (Resolved ()) w) = Inr ()
       \<and> ui (snd (logout (Resolved ()) w)) = (ui w)\<lparr>provider := None\<rparr>
       \<and> provider (ui (snd (logout (Resolved ()) w))) = None
       \<and> web3auth (ui (snd (logout (Resolved ()) w))) = Some s
       \<and> contract (ui (snd (logout (Resolved ()) w))) = contract (ui w)
       \<and> (contract (ui w) = None \<longrightarrow> pre_login (snd (logout (Resolved ()) w)))
       \<and> deployContract sg d wt g (snd (logout (Resolved ()) w)) =
           (Inr (), emit (ConsoleLog [Str ''provider not initialized yet''])
                      (snd (logout (Resolved ()) w)))
       \<and> (pre_login w0 \<longrightarrow>
            deployContract sg d wt g w0 =
              (Inr (), emit (ConsoleLog [Str ''provider not initialized yet'']) w0))
       \<and> fst (logout (Rejected e) w) = Inl e
       \<and> ui (snd (logout (Rejected e) w)) = ui w"
  using assms
  by (simp add: logout_resolved logout_rejected pre_login_def deployContract_no_provider)

theorem logout_clears_provider_only_witness:
  "web3auth (ui logged_in) = Some Web3AuthNoModal
   \<and> provider (ui logged_in) = Some (BrowserProvider 0)
   \<and> contract (ui logged_in) = None
   \<and> provider (ui (snd (logout (Resolved ()) logged_in))) = None
   \<and> pre_login (snd (logout (Resolved ()) logged_in))
   \<and> pre_login (run [Init (Resolved ()) (Resolved ())] (initial []))
   \<and> ui (snd (deployContract (Resolved ()) (Resolved ()) (Resolved ()) (Resolved ())
              (snd (logout (Resolved ()) logged_in))))
       = ui (snd (logout (Resolved ()) logged_in))
   \<and> ui (snd (deployContract (Resolved ()) (Resolved ()) (Resolved ()) (Resolved ())
              (run [Init (Resolved ()) (Resolved ())] (initial []))))
       = ui (run [Init (Resolved ()) (Resolved ())] (initial []))
   \<and> provider (ui (snd (logout (Rejected ''offline'') logged_in))) = Some (BrowserProvider 0)"
  using logout_clears_provider_only [of logged_in Web3AuthNoModal
      "Resolved ()" "Resolved ()" "Resolved ()" "Resolved ()"
      "run [Init (Resolved ()) (Resolved ())] (initial [])" "''offline''"]
  by (simp add: logged_in_eval initial_def pre_login_def handler_defs prog_defs)

text \<open>
  After init, login, a deployment and a \<open>logout\<close>, the component is not in the state
  before login: the contract reference is still stored. Before login \<open>readContract\<close>
  only logs "Contract not deployed yet"; after the \<open>logout\<close> it calls \<open>message()\<close> on
  the stored contract and displays "Hello World!".
\<close>

theorem logout_after_deploy_is_not_pre_login:
  "web3auth (ui deployed_and_typed) = Some Web3AuthNoModal
   \<and> pre_login (run [Init (Resolved ()) (Resolved ())] (initial []))
   \<and> emitted (run [Init (Resolved ()) (Resolved ())] (initial []))
        (snd (readContract (Resolved ()) (run [Init (Resolved ()) (Resolved ())] (initial []))))
       = [ConsoleLog [Str ''Contract not deployed yet'']]
   \<and> message (ui (snd (readContract (Resolved ())
        (run [Init (Resolved ()) (Resolved ())] (initial []))))) = ''''
   \<and> fst (logout (Resolved ()) deployed_and_typed) = Inr ()
   \<and> \<not> pre_login (snd (logout (Resolved ()) deployed_and_typed))
   \<and> contract (ui (snd (logout (Resolved ()) deployed_and_typed)))
       = Some (Contract 0 ''Hello World!'')
   \<and> emitted (snd (logout (Resolved ()) deployed_and_typed))
        (snd (readContract (Resolved ()) (snd (logout (Resolved ()) deployed_and_typed))))
       = [Sdk (ContractMessage 0)]
   \<and> message (ui (snd (readContract (Resolved ())
        (snd (logout (Resolved ()) deployed_and_typed))))) = ''Hello World!''"
  by (simp add: deployed_and_typed_eval initial_def pre_login_def emitted_def
        handler_defs prog_defs)

section \<open>The guards are no-ops\<close>

text \<open>
  C5: in every state where the session is not initialized (\<open>web3auth\<close> is null),
  \<open>login\<close> returns normally, whatever \<open>connectTo\<close> would have answered, having logged
  one diagnostic and nothing else: no field of the component state changes, so no
  provider is produced, and no library call is made.
\<close>

theorem login_before_init_is_noop:
  assumes "web3auth (ui w) = None"
  shows "fst (login r w) = Inr ()
       \<and> ui (snd (login r w)) = ui w
       \<and> chain (snd (login r w)) = chain w
       \<and> emitted w (snd (login r w)) = [ConsoleLog [Str ''web3auth not initialized yet'']]"
  using assms by (simp add: login_no_session)

theorem login_before_init_is_noop_witness:
  "web3auth (ui (initial [])) = None
   \<and> ui (snd (login (Resolved 7) (initial []))) = ui (initial [])
   \<and> provider (ui (snd (login (Resolved 7) (initial [])))) = None"
  using login_before_init_is_noop [of "initial []" "Resolved 7"]
  by (simp add: initial_def)

text \<open>
  C6: in every state where no provider is connected (\<open>provider\<close> is null),
  \<open>deployContract\<close> returns normally having logged one diagnostic and nothing else:
  no field of the component state changes, so no contract is stored, and nothing is
  deployed.
\<close>

theorem deployContract_before_login_is_noop:
  assumes "provider (ui w) = None"
  shows "fst (deployContract sg d wt g w) = Inr ()
       \<and> ui (snd (deployContract sg d wt g w)) = ui w
       \<and> chain (snd (deployContract sg d wt g w)) = chain w
       \<and> emitted w (snd (deployContract sg d wt g w))
           = [ConsoleLog [Str ''provider not initialized yet'']]"
  using assms by (simp add: deployContract_no_provider)

theorem deployContract_before_login_is_noop_witness:
  "provider (ui (initial [])) = None
   \<and> contract (ui (snd (deployContract (Resolved ()) (Resolved ()) (Resolved ()) (Resolved ())
        (initial [])))) = None
   \<and> chain (snd (deployContract (Resolved ()) (Resolved ()) (Resolved ()) (Resolved ())
        (initial []))) = []"
  using deployContract_before_login_is_noop
    [of "initial []" "Resolved ()" "Resolved ()" "Resolved ()" "Resolved ()"]
  by (simp add: initial_def)

text \<open>
  C7: in every state where no contract is stored (\<open>contract\<close> is null), \<open>readContract\<close>
  and \<open>writeContract\<close> each return normally having logged one diagnostic and nothing
  else: the displayed message, the pending input and every other field are unchanged,
  the chain is unchanged, and no call is made, so no transaction is submitted.
\<close>

theorem read_write_before_deploy_are_noops:
  assumes "contract (ui w) = None"
  shows "fst (readContract r w) = Inr ()
       \<and> ui (snd (readContract r w)) = ui w
       \<and> chain (snd (readContract r w)) = chain w
       \<and> emitted w (snd (readContract r w)) = [ConsoleLog [Str ''Contract not deployed yet'']]
       \<and> fst (writeContract u wt w) = Inr ()
       \<and> ui (snd (writeContract u wt w)) = ui w
       \<and> chain (snd (writeContract u wt w)) = chain w
       \<and> emitted w (snd (writeContract u wt w)) = [ConsoleLog [Str ''Contract not deployed yet'']]"
  using assms by (simp add: readContract_no_contract writeContract_no_contract)

theorem read_write_before_deploy_are_noops_witness:
  "contract (ui logged_in) = None
   \<and> message (ui (snd (readContract (Resolved ()) logged_in))) = ''''
   \<and> newMessage (ui (snd (writeContract (Resolved ()) (Resolved ()) logged_in))) = ''gm''
   \<and> chain (snd (writeContract (Resolved ()) (Resolved ()) logged_in)) = []"
  using read_write_before_deploy_are_noops [of logged_in "Resolved ()" "Resolved ()" "Resolved ()"]
  by (simp add: logged_in_eval)

section \<open>A deployment that fails\<close>

text \<open>
  C8: when \<open>deployContract\<close> is called with a provider and the deployment raises an
  error \<open>e\<close> (at \<open>getSigner\<close>, at \<open>factory.deploy\<close>, where insufficient funds show,
  or at \<open>waitForDeployment\<close>), the error is caught, so the handler returns normally,
  and logged with \<open>console.error\<close>; the hint about test ETH is logged exactly when the
  message includes "insufficient funds"; there is no retry, the signer having been
  asked for once and \<open>factory.deploy\<close> called at most once; and the component state,
  the stored contract reference with it, is what it was before the call.
\<close>

theorem deployContract_failure_keeps_contract:
  assumes "provider (ui w) = Some p"
    and "sg = Rejected e
         \<or> (sg = Resolved () \<and> d = Rejected e)
         \<or> (sg = Resolved () \<and> d = Resolved () \<and> wt = Rejected e)"
  shows "fst (deployContract sg d wt g w) = Inr ()
       \<and> ui (snd (deployContract sg d wt g w)) = ui w
       \<and> contract (ui (snd (deployContract sg d wt g w))) = contract (ui w)
       \<and> ConsoleError [Str ''Error deploying contract:'', Str e]
            \<in> set (emitted w (snd (deployContract sg d wt g w)))
       \<and> (ConsoleLog [Str ''Please make sure you have enough test ETH in your wallet.'']
            \<in> set (emitted w (snd (deployContract sg d wt g w))))
          = includes_str e ''insufficient funds''
       \<and> count_list (emitted w (snd (deployContract sg d wt g w))) (Sdk GetSigner) = 1
       \<and> count_list (emitted w (snd (deployContract sg d wt g w)))
            (Sdk (FactoryDeploy ''Hello World!'')) \<le> 1"
  using assms(2)
proof (elim disjE conjE)
  assume "sg = Rejected e"
  then show ?thesis
    by (simp add: deployContract_getSigner_rejected [OF assms(1)] emitted_def)
next
  assume "sg = Resolved ()" "d = Rejected e"
  then show ?thesis
    by (simp add: deployContract_deploy_rejected [OF assms(1)] emitted_def)
next
  assume "sg = Resolved ()" "d = Resolved ()" "wt = Rejected e"
  then show ?thesis
    by (simp add: deployContract_wait_rejected [OF assms(1)] emitted_def)
qed

theorem deployContract_failure_keeps_contract_witness:
  "provider (ui deployed_and_typed) = Some (BrowserProvider 0)
   \<and> contract (ui (snd (deployContract (Resolved ())
        (Rejected ''insufficient funds for intrinsic transaction cost'') (Resolved ()) (Resolved ())
        deployed_and_typed))) = Some (Contract 0 ''Hello World!'')
   \<and> fst (deployContract (Resolved ())
        (Rejected ''insufficient funds for intrinsic transaction cost'') (Resolved ()) (Resolved ())
        deployed_and_typed) = Inr ()
   \<and> includes_str ''insufficient funds for intrinsic transaction cost'' ''insufficient funds''"
  using deployContract_failure_keeps_contract
    [of deployed_and_typed "BrowserProvider 0" "Resolved ()"
        "''insufficient funds for intrinsic transaction cost''"
        "Rejected ''insufficient funds for intrinsic transaction cost''" "Resolved ()" "Resolved ()"]
  by (simp add: deployed_and_typed_eval)

section \<open>Frames\<close>

text \<open>
  C9: \<open>getUserInfo\<close>, called with an initialized session, leaves every field of the
  component state (session, provider, contract, displayed message, pending input)
  and the chain unchanged, whatever the SDK answers; when the SDK resolves with the
  profile data, the handler returns normally having made that one call and logged
  the data.
\<close>

theorem getUserInfo_changes_nothing:
  assumes "web3auth (ui w) = Some s"
  shows "ui (snd (getUserInfo r w)) = ui w
       \<and> chain (snd (getUserInfo r w)) = chain w
       \<and> fst (getUserInfo (Resolved user) w) = Inr ()
       \<and> emitted w (snd (getUserInfo (Resolved user) w))
           = [Sdk Web3authGetUserInfo, ConsoleLog [Obj user]]"
  using assms
  by (cases r) (simp_all add: getUserInfo_def prog_defs emitted_def)

theorem getUserInfo_changes_nothing_witness:
  "web3auth (ui deployed_and_typed) = Some Web3AuthNoModal
   \<and> ui (snd (getUserInfo (Resolved ''alice'') deployed_and_typed)) = ui deployed_and_typed
   \<and> ui (snd (getUserInfo (Resolved ''alice'') deployed_and_typed)) =
       \<lparr>web3auth = Some Web3AuthNoModal, provider = Some (BrowserProvider 0),
        contract = Some (Contract 0 ''Hello World!''), message = '''', newMessage = ''gm''\<rparr>
   \<and> emitted deployed_and_typed (snd (getUserInfo (Resolved ''alice'') deployed_and_typed))
       = [Sdk Web3authGetUserInfo, ConsoleLog [Obj ''alice'']]"
  using getUserInfo_changes_nothing
    [of deployed_and_typed Web3AuthNoModal "Resolved ''alice''" "''alice''"]
  by (simp add: deployed_and_typed_eval)

text \<open>
  C10: \<open>logout\<close> writes the provider field only: the contract reference, the
  displayed message, the pending input (and the session and the chain) are what they
  were, whatever the SDK answers. So after a \<open>logout\<close> that follows a deployment, the
  provider is null and the stale contract reference is still stored; \<open>readContract\<close>
  and \<open>writeContract\<close> pass their guards and operate on it: the one thing
  \<open>readContract\<close> emits is the \<open>message()\<close> call on that contract, and the first thing
  \<open>writeContract\<close> emits is the \<open>update\<close> call on it with the pending input, neither
  logging "Contract not deployed yet".
\<close>

theorem logout_keeps_stale_contract:
  assumes "web3auth (ui w0) = Some s" and "provider (ui w0) = Some p"
  shows "contract (ui (snd (logout r w))) = contract (ui w)
       \<and> message (ui (snd (logout r w))) = message (ui w)
       \<and> newMessage (ui (snd (logout r w))) = newMessage (ui w)
       \<and> web3auth (ui (snd (logout r w))) = web3auth (ui w)
       \<and> chain (snd (logout r w)) = chain w
       \<and> provider (ui (snd (logout (Resolved ())
            (snd (deployContract (Resolved ()) (Resolved ()) (Resolved ()) g w0))))) = None
       \<and> contract (ui (snd (logout (Resolved ())
            (snd (deployContract (Resolved ()) (Resolved ()) (Resolved ()) g w0)))))
           = Some (Contract (length (chain w0)) ''Hello World!'')
       \<and> emitted
            (snd (logout (Resolved ())
               (snd (deployContract (Resolved ()) (Resolved ()) (Resolved ()) g w0))))
            (snd (readContract m
               (snd (logout (Resolved ())
                  (snd (deployContract (Resolved ()) (Resolved ()) (Resolved ()) g w0))))))
           = [Sdk (ContractMessage (length (chain w0)))]
       \<and> take 1 (emitted
            (snd (logout (Resolved ())
               (snd (deployContract (Resolved ()) (Resolved ()) (Resolved ()) g w0))))
            (snd (writeContract u wt
               (snd (logout (Resolved ())
                  (snd (deployContract (Resolved ()) (Resolved ()) (Resolved ()) g w0)))))))
           = [Sdk (ContractUpdate (length (chain w0)) (newMessage (ui w0)))]"
proof -
  let ?w1 = "snd (deployContract (Resolved ()) (Resolved ()) (Resolved ()) g w0)"
  let ?w2 = "snd (logout (Resolved ()) ?w1)"
  have w1: "web3auth (ui ?w1) = Some s" "contract (ui ?w1) = Some (Contract (length (chain w0)) ''Hello World!'')"
    "newMessage (ui ?w1) = newMessage (ui w0)"
    by (subst deployContract_deployed [OF assms(2)], simp add: assms(1))+
  have w2: "provider (ui ?w2) = None" "contract (ui ?w2) = Some (Contract (length (chain w0)) ''Hello World!'')"
    "newMessage (ui ?w2) = newMessage (ui w0)"
    by (simp_all add: logout_resolved [OF w1(1)] w1)
  have rd: "emitted ?w2 (snd (readContract m ?w2)) = [Sdk (ContractMessage (length (chain w0)))]"
    using w2(2) by (cases m) (simp_all add: readContract_def prog_defs emitted_def)
  have wr: "take 1 (emitted ?w2 (snd (writeContract u wt ?w2)))
              = [Sdk (ContractUpdate (length (chain w0)) (newMessage (ui w0)))]"
    using w2(2,3) by (cases u; cases wt) (simp_all add: writeContract_def prog_defs emitted_def)
  show ?thesis
    using w2(1,2) rd wr by (simp add: logout_frame)
qed

theorem logout_keeps_stale_contract_witness:
  "web3auth (ui logged_in) = Some Web3AuthNoModal
   \<and> provider (ui logged_in) = Some (BrowserProvider 0)
   \<and> contract (ui (snd (logout (Resolved ())
        (snd (deployContract (Resolved ()) (Resolved ()) (Resolved ()) (Resolved ()) logged_in)))))
       = Some (Contract 0 ''Hello World!'')
   \<and> provider (ui (snd (logout (Resolved ())
        (snd (deployContract (Resolved ()) (Resolved ()) (Resolved ()) (Resolved ()) logged_in)))))
       = None
   \<and> emitted
        (snd (logout (Resolved ())
           (snd (deployContract (Resolved ()) (Resolved ()) (Resolved ()) (Resolved ()) logged_in))))
        (snd (readContract (Resolved ())
           (snd (logout (Resolved ())
              (snd (deployContract (Resolved ()) (Resolved ()) (Resolved ()) (Resolved ())
                 logged_in))))))
       = [Sdk (ContractMessage 0)]"
  using logout_keeps_stale_contract
    [of logged_in Web3AuthNoModal "BrowserProvider 0" "Resolved ()" logged_in
        "Resolved ()" "Resolved ()" "Resolved ()" "Resolved ()"]
  by (simp add: logged_in_eval)

end
